theory Spec2Isabelle
  imports Complex_Main
begin

text \<open>
  A shallow embedding of the streaming chat pipeline of the multi-provider server: the
  route \<open>POST /api/chat\<close> with its attachment extractor, its knowledge and profile
  augmentation, the router \<open>getProviderFromModel\<close> and the three handlers
  \<open>handleGeminiChat\<close>, \<open>handleOpenAIChat\<close> and \<open>handleOllamaChat\<close>. The response object, the
  module variable \<open>knowledgeLoader\<close> and the calls on collaborators are an explicit state;
  an exception is the left summand of a result.
\<close>

section \<open>JavaScript strings\<close>

text \<open>
  A JavaScript string is a sequence of UTF-16 code units; \<open>length\<close>, \<open>substring\<close>,
  \<open>slice\<close>, \<open>startsWith\<close> and the regular expressions of the server all count code
  units. A string is therefore a list of code units, each a natural number. The literals of
  the source that are not ASCII are written out as code units, with an English gloss.
\<close>

type_synonym jsstring = "nat list"

definition ascii :: "string \<Rightarrow> jsstring" where
  "ascii s = map of_char s"

definition startsWith :: "jsstring \<Rightarrow> jsstring \<Rightarrow> bool" where
  "startsWith s p = (take (length p) s = p)"

definition endsWith :: "jsstring \<Rightarrow> jsstring \<Rightarrow> bool" where
  "endsWith s p = (length p \<le> length s \<and> drop (length s - length p) s = p)"

fun includes_js :: "jsstring \<Rightarrow> jsstring \<Rightarrow> bool" where
  "includes_js [] p = (p = [])"
| "includes_js (c # cs) p = (startsWith (c # cs) p \<or> includes_js cs p)"

text \<open>\<open>s.split(sep)\<close> for a separator of one code unit: never the empty list.\<close>

fun split_on :: "nat \<Rightarrow> jsstring \<Rightarrow> jsstring list" where
  "split_on sep [] = [[]]"
| "split_on sep (c # cs) =
     (if c = sep then [] # split_on sep cs
      else (case split_on sep cs of
              [] \<Rightarrow> [[c]]
            | p # ps \<Rightarrow> (c # p) # ps))"

text \<open>
  White space as \<open>String.prototype.trim\<close> and the class \<open>\s\<close> have it: TAB, LF, VT, FF,
  CR, SP, NBSP, U+1680, U+2000 to U+200A, U+2028, U+2029, U+202F, U+205F, U+3000, U+FEFF.
\<close>

definition is_ws :: "nat \<Rightarrow> bool" where
  "is_ws c = (c = 9 \<or> c = 10 \<or> c = 11 \<or> c = 12 \<or> c = 13 \<or> c = 32 \<or> c = 160
       \<or> c = 5760 \<or> (8192 \<le> c \<and> c \<le> 8202) \<or> c = 8232 \<or> c = 8233 \<or> c = 8239
       \<or> c = 8287 \<or> c = 12288 \<or> c = 65279)"

definition trim :: "jsstring \<Rightarrow> jsstring" where
  "trim s = rev (dropWhile is_ws (rev (dropWhile is_ws s)))"

text \<open>The class \<open>[\x00-\x08\x0B\x0C\x0E-\x1F\x7F]\<close> of the PDF sanitiser.\<close>

definition is_control :: "nat \<Rightarrow> bool" where
  "is_control c = (c \<le> 8 \<or> c = 11 \<or> c = 12 \<or> (14 \<le> c \<and> c \<le> 31) \<or> c = 127)"

text \<open>
  \<open>s.replace(/\s+/g, ' ')\<close>: every maximal run of white space becomes one space. The flag
  says whether the previous code unit belonged to a run that has already been replaced.
\<close>

fun collapse :: "bool \<Rightarrow> jsstring \<Rightarrow> jsstring" where
  "collapse in_run [] = []"
| "collapse in_run (c # cs) =
     (if is_ws c then (if in_run then collapse True cs else 32 # collapse True cs)
      else c # collapse False cs)"


text \<open>A non-negative integer inside a template literal: its decimal digits.\<close>

fun show_nat :: "nat \<Rightarrow> jsstring" where
  "show_nat n = (if n < 10 then [48 + n] else show_nat (n div 10) @ [48 + n mod 10])"

declare show_nat.simps [simp del]

text \<open>\<open>xs.slice(-k)\<close> on an array: its last \<open>k\<close> elements, all of it when it is shorter.\<close>

definition slice_last :: "nat \<Rightarrow> 'a list \<Rightarrow> 'a list" where
  "slice_last k xs = drop (length xs - k) xs"

section \<open>Provider router\<close>

definition getProviderFromModel :: "jsstring \<Rightarrow> jsstring" where
  "getProviderFromModel model =
     (if startsWith model (ascii ''gemini'') \<or> includes_js model (ascii ''gemini'')
      then ascii ''gemini''
      else if startsWith model (ascii ''gpt'') then ascii ''openai''
      else ascii ''ollama'')"

text \<open>The \<open>switch (provider)\<close> of the chat route: the case label that is taken.\<close>

datatype branch = CaseGemini | CaseOpenAI | CaseOllama | CaseDefault

definition switch_provider :: "jsstring \<Rightarrow> branch" where
  "switch_provider provider =
     (if provider = ascii ''gemini'' then CaseGemini
      else if provider = ascii ''openai'' then CaseOpenAI
      else if provider = ascii ''ollama'' then CaseOllama
      else CaseDefault)"

section \<open>Values read from a backend stream\<close>

text \<open>
  What \<open>JSON.parse\<close> returns. An object is the list of its own properties. A value that may
  also be \<open>undefined\<close> (a missing property, an index out of range) is a \<open>jsval\<close>.
\<close>

datatype json =
    JNull
  | JBool bool
  | JNum rat
  | JStr jsstring
  | JArr "json list"
  | JObj "(jsstring \<times> json) list"

datatype jsval = Undefined | Val json

text \<open>The truthiness that \<open>if (x)\<close> and \<open>x || y\<close> test.\<close>

fun truthy :: "jsval \<Rightarrow> bool" where
  "truthy Undefined = False"
| "truthy (Val JNull) = False"
| "truthy (Val (JBool b)) = b"
| "truthy (Val (JNum n)) = (n \<noteq> 0)"
| "truthy (Val (JStr s)) = (s \<noteq> [])"
| "truthy (Val (JArr xs)) = True"
| "truthy (Val (JObj kvs)) = True"

text \<open>
  \<open>x.k\<close> for the property names the handlers read (\<open>response\<close>, \<open>done\<close>, \<open>choices\<close>,
  \<open>delta\<close>, \<open>content\<close>), none of which is a built-in property of a primitive or of an
  array. \<open>None\<close> is the TypeError that reading a property of \<open>null\<close> or \<open>undefined\<close>
  throws.
\<close>

fun member :: "jsval \<Rightarrow> jsstring \<Rightarrow> jsval option" where
  "member Undefined k = None"
| "member (Val JNull) k = None"
| "member (Val (JObj kvs)) k =
     Some (case map_of kvs k of None \<Rightarrow> Undefined | Some v \<Rightarrow> Val v)"
| "member (Val v) k = Some Undefined"

text \<open>\<open>x[0]\<close>: the first element of an array, the first code unit of a string.\<close>

fun index0 :: "jsval \<Rightarrow> jsval option" where
  "index0 Undefined = None"
| "index0 (Val JNull) = None"
| "index0 (Val (JArr xs)) = Some (case xs of [] \<Rightarrow> Undefined | x # _ \<Rightarrow> Val x)"
| "index0 (Val (JStr s)) = Some (case s of [] \<Rightarrow> Undefined | c # _ \<Rightarrow> Val (JStr [c]))"
| "index0 (Val (JObj kvs)) =
     Some (case map_of kvs (ascii ''0'') of None \<Rightarrow> Undefined | Some v \<Rightarrow> Val v)"
| "index0 (Val v) = Some Undefined"

text \<open>\<open>x?.k\<close>: \<open>undefined\<close> on \<open>null\<close> and \<open>undefined\<close>, never a TypeError.\<close>

definition opt_member :: "jsval \<Rightarrow> jsstring \<Rightarrow> jsval" where
  "opt_member x k = (case member x k of None \<Rightarrow> Undefined | Some v \<Rightarrow> v)"

section \<open>The outgoing event stream\<close>

text \<open>
  A frame is the object that \<open>res.write\<close> serialises: \<open>{content}\<close>, \<open>{done: true}\<close> or
  \<open>{error}\<close>. The response object \<open>res\<close> is the list of the calls made on it, in order.
\<close>

datatype frame = Content json | Done | ErrorF jsstring

datatype action = Write frame | End

definition res_write :: "frame \<Rightarrow> action list \<Rightarrow> action list" where
  "res_write f r = r @ [Write f]"

definition res_end :: "action list \<Rightarrow> action list" where
  "res_end r = r @ [End]"

fun is_terminal :: "frame \<Rightarrow> bool" where
  "is_terminal (Content v) = False"
| "is_terminal Done = True"
| "is_terminal (ErrorF e) = True"

fun is_content_write :: "action \<Rightarrow> bool" where
  "is_content_write (Write (Content v)) = True"
| "is_content_write a = False"

fun is_terminal_write :: "action \<Rightarrow> bool" where
  "is_terminal_write (Write f) = is_terminal f"
| "is_terminal_write End = False"

text \<open>
  The shape the stream protocol asks of a turn: content frames, then one terminal frame,
  then the end of the response, and nothing more.
\<close>

definition well_terminated :: "action list \<Rightarrow> bool" where
  "well_terminated r =
     (case rev r of
        End # Write f # pre \<Rightarrow> is_terminal f \<and> list_all is_content_write pre
      | _ \<Rightarrow> False)"

section \<open>Requests, collaborators and server state\<close>

text \<open>
  The body of a chat request. An absent string field and an empty one behave alike wherever
  the route reads \<open>type\<close>, \<open>name\<close>, \<open>department\<close> and \<open>context\<close> (both are falsy), so they are
  strings, empty when absent. \<open>file.data\<close> is printed by a template literal, where absent and
  empty differ, so it is optional.
\<close>

record attachment =
  fname :: jsstring
  ftype :: jsstring
  fdata :: "jsstring option"

record profile =
  pname :: jsstring
  department :: jsstring
  pcontext :: jsstring

record hist_msg =
  role :: jsstring
  content :: jsstring

record request =
  message :: jsstring
  model :: jsstring
  history :: "hist_msg list"
  userProfile :: "profile option"
  useKnowledge :: bool
  files :: "attachment list"

text \<open>The requests the handlers send to a backend.\<close>

datatype part = InlineData jsstring jsstring | Text jsstring

datatype backend_call =
    OllamaGenerate jsstring jsstring
  | OpenAICompletions jsstring "hist_msg list"
  | GeminiGenerate jsstring "part list"

text \<open>The calls made on the knowledge loader.\<close>

datatype kb_call =
    NewLoader
  | Initialize
  | LoadDocuments
  | SearchDocuments jsstring
  | GenerateContext

text \<open>
  The collaborators of the route are libraries (\<open>JSON.parse\<close>, \<open>pdf-parse\<close>, \<open>axios\<close>, the
  Gemini client), two modules of the repository whose code is not available (the knowledge
  loader and the persona module) and the process environment. They are parameters: a
  thrown exception or a rejected promise is \<open>Inl\<close> of its message.
  \<^item> \<open>OPENAI_API_KEY\<close>: empty when the variable is unset;
  \<^item> \<open>genAI\<close>: whether the Gemini client was built at start-up;
  \<^item> \<open>JSON_parse\<close>: \<open>None\<close> is the SyntaxError;
  \<^item> \<open>pdf\<close>: from the base64 payload to \<open>pdfData.text || ''\<close>;
  \<^item> \<open>axios_post\<close>: a rejected request, or the chunks the response stream delivers;
  \<^item> \<open>generateContent\<close>: a failure, or \<open>response.text()\<close>;
  \<^item> \<open>new_loader\<close>, \<open>initialize\<close>: the message of a synchronous throw, if any;
  \<^item> \<open>new_documents\<close>: \<open>documents.length\<close> of a fresh loader;
  \<^item> \<open>loadDocuments\<close>: a failure, or \<open>documents.length\<close> afterwards;
  \<^item> \<open>generateContext\<close>: a failure, or the context, empty for every falsy value.
\<close>

record 'd env =
  OPENAI_API_KEY :: jsstring
  genAI :: bool
  JSON_parse :: "jsstring \<Rightarrow> json option"
  pdf :: "jsstring \<Rightarrow> jsstring + jsstring"
  enhancePrompt :: "jsstring \<Rightarrow> jsstring"
  processResponse :: "jsstring \<Rightarrow> jsstring \<Rightarrow> jsstring"
  axios_post :: "backend_call \<Rightarrow> jsstring + jsstring list"
  generateContent :: "backend_call \<Rightarrow> jsstring + jsstring"
  new_loader :: "jsstring option"
  initialize :: "jsstring option"
  new_documents :: nat
  loadDocuments :: "jsstring + nat"
  searchDocuments :: "jsstring \<Rightarrow> jsstring + 'd"
  generateContext :: "'d \<Rightarrow> jsstring + jsstring"

text \<open>
  The state a turn reads and writes: the module variable \<open>knowledgeLoader\<close> (\<open>None\<close> is
  \<open>null\<close>, otherwise the number of loaded documents), the calls made on the knowledge loader
  and on the backends, and the response object.
\<close>

record sstate =
  knowledgeLoader :: "nat option"
  kb_calls :: "kb_call list"
  backend_calls :: "backend_call list"
  res :: "action list"

section \<open>Literals of the chat route\<close>

text \<open>Two line feeds, "The following files are attached:", line feed.\<close>

definition txt_files_intro :: jsstring where
  "txt_files_intro = [10, 10, 20197, 19979, 12398, 12501, 12449, 12452, 12523, 12364, 28155,
     20184, 12373, 12428, 12390, 12356, 12414, 12377, 65306, 10]"

text \<open>Line feed, "=== File name: ".\<close>

definition txt_file_open :: jsstring where
  "txt_file_open = [10] @ ascii ''=== '' @ [12501, 12449, 12452, 12523, 21517] @ ascii '': ''"

text \<open>" ===", line feed.\<close>

definition txt_bar_close :: jsstring where
  "txt_bar_close = ascii '' ==='' @ [10]"

text \<open>"File type: ".\<close>

definition txt_file_type :: jsstring where
  "txt_file_type = [12501, 12449, 12452, 12523, 12479, 12452, 12503] @ ascii '': ''"

text \<open>"Content:", line feed.\<close>

definition txt_content :: jsstring where
  "txt_content = [20869, 23481] @ ascii '':'' @ [10]"

text \<open>"=== End of file ===", line feed.\<close>

definition txt_file_end :: jsstring where
  "txt_file_end = ascii ''=== '' @ [12501, 12449, 12452, 12523, 32066, 20102] @ ascii '' ===''
     @ [10]"

text \<open>Line feed, "[Image file: ".\<close>

definition txt_image_open :: jsstring where
  "txt_image_open = [10] @ ascii ''['' @ [30011, 20687, 12501, 12449, 12452, 12523]
     @ ascii '': ''"

text \<open>Line feed, "=== PDF file: ".\<close>

definition txt_pdf_open :: jsstring where
  "txt_pdf_open = [10] @ ascii ''=== PDF'' @ [12501, 12449, 12452, 12523] @ ascii '': ''"

text \<open>"Content (".\<close>

definition txt_content_open :: jsstring where
  "txt_content_open = [20869, 23481] @ ascii '' (''"

text \<open>"characters):", line feed.\<close>

definition txt_chars_close :: jsstring where
  "txt_chars_close = [25991, 23383] @ ascii ''):'' @ [10]"

text \<open>Line feed, "... (remaining ".\<close>

definition txt_omit_open :: jsstring where
  "txt_omit_open = [10] @ ascii ''... ('' @ [27531, 12426] @ ascii '' ''"

text \<open>" characters omitted) ...", line feed.\<close>

definition txt_omit_close :: jsstring where
  "txt_omit_close = ascii '' '' @ [25991, 23383, 30465, 30053] @ ascii '') ...'' @ [10]"

text \<open>"(The PDF contains no text - it may be an image-based PDF)", line feed.\<close>

definition txt_no_text :: jsstring where
  "txt_no_text = ascii ''(PDF'' @ [12395, 12486, 12461, 12473, 12488, 12364, 21547, 12414,
     12428, 12390, 12356, 12414, 12379, 12435] @ ascii '' - '' @ [30011, 20687, 12505, 12540,
     12473, 12398] @ ascii ''PDF'' @ [12398, 21487, 33021, 24615, 12364, 12354, 12426, 12414,
     12377] @ ascii '')'' @ [10]"

text \<open>Line feed, "[Hint]" in lenticular brackets, line feed.\<close>

definition txt_hint_head :: jsstring where
  "txt_hint_head = [10, 12304, 12498, 12531, 12488, 12305, 10]"

text \<open>Bullet, "This PDF may consist of images or scanned data only", line feed.\<close>

definition txt_hint1 :: jsstring where
  "txt_hint1 = [8226] @ ascii '' '' @ [12371, 12398] @ ascii ''PDF'' @ [12399, 30011, 20687,
     12420, 12473, 12461, 12515, 12531, 12487, 12540, 12479, 12398, 12415, 12391, 27083, 25104,
     12373, 12428, 12390, 12356, 12427, 21487, 33021, 24615, 12364, 12354, 12426, 12414, 12377,
     10]"

text \<open>Bullet, "Convert it to a PDF with selectable text and try again", line feed.\<close>

definition txt_hint2 :: jsstring where
  "txt_hint2 = [8226] @ ascii '' '' @ [12486, 12461, 12473, 12488, 36984, 25246, 21487, 33021,
     12394] @ ascii ''PDF'' @ [12395, 22793, 25563, 12375, 12390, 12363, 12425, 20877, 24230,
     12362, 35430, 12375, 12367, 12384, 12373, 12356, 10]"

text \<open>Bullet, "Or send the content of the PDF as images, which a Gemini model may be able to read", line feed.\<close>

definition txt_hint3 :: jsstring where
  "txt_hint3 = [8226] @ ascii '' '' @ [12414, 12383, 12399, 12289] @ ascii ''PDF'' @ [12398,
     20869, 23481, 12434, 30011, 20687, 12392, 12375, 12390, 36865, 20449, 12375, 12390, 12356,
     12383, 12384, 12369, 12428, 12400, 12289] @ ascii ''Gemini'' @ [12514, 12487, 12523,
     12391, 35501, 12415, 21462, 12428, 12427, 22580, 21512, 12364, 12354, 12426, 12414, 12377,
     10]"

text \<open>"PDF parse error: ".\<close>

definition txt_parse_error :: jsstring where
  "txt_parse_error = ascii ''PDF'' @ [35299, 26512, 12456, 12521, 12540] @ ascii '': ''"

text \<open>"(The format of the PDF data is invalid)", line feed.\<close>

definition txt_bad_format :: jsstring where
  "txt_bad_format = ascii ''(PDF'' @ [12487, 12540, 12479, 24418, 24335, 12364, 19981, 27491,
     12391, 12377] @ ascii '')'' @ [10]"

text \<open>"(Reading the PDF failed: ".\<close>

definition txt_read_failed :: jsstring where
  "txt_read_failed = ascii ''(PDF'' @ [12398, 35501, 12415, 36796, 12415, 12395, 22833, 25943,
     12375, 12414, 12375, 12383] @ ascii '': ''"

text \<open>"Hint: text cannot always be extracted from an image-based PDF.", line feed.\<close>

definition txt_failed_hint :: jsstring where
  "txt_failed_hint = [12498, 12531, 12488] @ ascii '': PDF'' @ [12364, 30011, 20687, 12505,
     12540, 12473, 12398, 22580, 21512, 12289, 12486, 12461, 12473, 12488, 25277, 20986, 12364,
     12391, 12365, 12394, 12356, 22580, 21512, 12364, 12354, 12426, 12414, 12377, 12290, 10]"

text \<open>Line feed, "[File: ".\<close>

definition txt_other_open :: jsstring where
  "txt_other_open = [10] @ ascii ''['' @ [12501, 12449, 12452, 12523] @ ascii '': ''"

text \<open>" (type: ".\<close>

definition txt_other_type :: jsstring where
  "txt_other_type = ascii '' ('' @ [12479, 12452, 12503] @ ascii '': ''"

text \<open>"User information: ".\<close>

definition txt_profile :: jsstring where
  "txt_profile = [12518, 12540, 12470, 12540, 24773, 22577] @ ascii '': ''"

text \<open>"unknown".\<close>

definition txt_unknown_jp :: jsstring where
  "txt_unknown_jp = [19981, 26126]"

text \<open>"The following is the recent conversation history:", line feed.\<close>

definition txt_recent_history :: jsstring where
  "txt_recent_history = [20197, 19979, 12399, 26368, 36817, 12398, 20250, 35441, 23653, 27508,
     12391, 12377, 65306, 10]"

text \<open>"User: " in Japanese.\<close>

definition txt_user_jp :: jsstring where
  "txt_user_jp = [12518, 12540, 12470, 12540] @ ascii '': ''"

text \<open>"Assistant: " in Japanese.\<close>

definition txt_assistant_jp :: jsstring where
  "txt_assistant_jp = [12450, 12471, 12473, 12479, 12531, 12488] @ ascii '': ''"

text \<open>Line feed, "Assistant: " in Japanese.\<close>

definition txt_assistant_jp_nl :: jsstring where
  "txt_assistant_jp_nl = [10, 12450, 12471, 12473, 12479, 12531, 12488] @ ascii '': ''"

text \<open>"Gemini API error: ".\<close>

definition txt_gemini_error :: jsstring where
  "txt_gemini_error = ascii ''Gemini API'' @ [12456, 12521, 12540] @ ascii '': ''"

section \<open>Attachment extractor\<close>

text \<open>The classification of a file, in the order of the \<open>if\<close> chain of the route.\<close>

definition is_text_file :: "attachment \<Rightarrow> bool" where
  "is_text_file f =
     (ftype f \<noteq> [] \<and>
      (startsWith (ftype f) (ascii ''text/'') \<or> ftype f = ascii ''application/json''
       \<or> endsWith (fname f) (ascii ''.md'') \<or> endsWith (fname f) (ascii ''.txt'')))"

definition is_image_file :: "attachment \<Rightarrow> bool" where
  "is_image_file f = (ftype f \<noteq> [] \<and> startsWith (ftype f) (ascii ''image/''))"

definition is_pdf_file :: "attachment \<Rightarrow> bool" where
  "is_pdf_file f = (ftype f = ascii ''application/pdf'' \<or> endsWith (fname f) (ascii ''.pdf''))"

text \<open>\<open>file.type || 'unknown'\<close> and \<open>file.data\<close> inside a template literal.\<close>

definition type_or_unknown :: "jsstring \<Rightarrow> jsstring" where
  "type_or_unknown t = (if t = [] then ascii ''unknown'' else t)"

definition data_text :: "jsstring option \<Rightarrow> jsstring" where
  "data_text d = (case d of None \<Rightarrow> ascii ''undefined'' | Some t \<Rightarrow> t)"

text \<open>The three chained calls on the extracted text: strip, collapse, trim.\<close>

definition sanitize :: "jsstring \<Rightarrow> jsstring" where
  "sanitize t = trim (collapse False (filter (\<lambda>c. \<not> is_control c) t))"

text \<open>What the route appends for an extracted text that is not empty.\<close>

definition pdf_text_fragment :: "jsstring \<Rightarrow> jsstring" where
  "pdf_text_fragment t =
     (let pdfContent = sanitize t in
      txt_content_open @ show_nat (length pdfContent) @ txt_chars_close
        @ take 5000 pdfContent @ [10]
        @ (if length pdfContent > 5000
           then txt_omit_open @ show_nat (length pdfContent - 5000) @ txt_omit_close
           else []))"

definition pdf_image_hint :: jsstring where
  "pdf_image_hint = txt_no_text @ txt_hint_head @ txt_hint1 @ txt_hint2 @ txt_hint3"

text \<open>\<open>file.data.split(',')[1]\<close>, \<open>None\<close> when there is no second piece.\<close>

definition second_piece :: "jsstring \<Rightarrow> jsstring option" where
  "second_piece d = (case split_on 44 d of p0 # p1 # ps \<Rightarrow> Some p1 | _ \<Rightarrow> None)"

text \<open>
  The body of the \<open>try\<close> block of the PDF branch: \<open>Inl\<close> is the message of the error it
  throws, \<open>Inr\<close> the text it appends to \<open>fileContext\<close>. Nothing is appended before a throw.
\<close>

definition pdf_try :: "(jsstring \<Rightarrow> jsstring + jsstring) \<Rightarrow> attachment \<Rightarrow> jsstring + jsstring" where
  "pdf_try extract f =
     (case fdata f of
        None \<Rightarrow> Inr txt_bad_format
      | Some d \<Rightarrow>
          if d \<noteq> [] \<and> startsWith d (ascii ''data:'') then
            (case second_piece d of
               None \<Rightarrow> Inl (ascii ''Invalid PDF data format'')
             | Some base64Data \<Rightarrow>
                 if base64Data = [] then Inl (ascii ''Invalid PDF data format'')
                 else (case extract base64Data of
                         Inl parseError \<Rightarrow> Inl (txt_parse_error @ parseError)
                       | Inr pdfContent \<Rightarrow>
                           if length pdfContent > 0 then Inr (pdf_text_fragment pdfContent)
                           else Inr pdf_image_hint))
          else Inr txt_bad_format)"

text \<open>The PDF branch: header, the \<open>try\<close> block with its \<open>catch\<close>, footer.\<close>

definition pdf_fragment :: "(jsstring \<Rightarrow> jsstring + jsstring) \<Rightarrow> attachment \<Rightarrow> jsstring" where
  "pdf_fragment extract f =
     txt_pdf_open @ fname f @ txt_bar_close
       @ (case pdf_try extract f of
            Inr appended \<Rightarrow> appended
          | Inl pdfError \<Rightarrow> txt_read_failed @ pdfError @ ascii '')'' @ [10] @ txt_failed_hint)
       @ txt_file_end"

text \<open>One iteration of the loop over the files: what is appended to \<open>fileContext\<close>.\<close>

definition file_fragment :: "(jsstring \<Rightarrow> jsstring + jsstring) \<Rightarrow> attachment \<Rightarrow> jsstring" where
  "file_fragment extract f =
     (if is_text_file f then
        txt_file_open @ fname f @ txt_bar_close
          @ txt_file_type @ type_or_unknown (ftype f) @ [10]
          @ txt_content @ data_text (fdata f) @ [10]
          @ txt_file_end
      else if is_image_file f then txt_image_open @ fname f @ ascii '']'' @ [10]
      else if is_pdf_file f then pdf_fragment extract f
      else txt_other_open @ fname f @ txt_other_type @ type_or_unknown (ftype f)
             @ ascii '')]'' @ [10])"

definition fileContext :: "(jsstring \<Rightarrow> jsstring + jsstring) \<Rightarrow> attachment list \<Rightarrow> jsstring" where
  "fileContext extract fs = txt_files_intro @ concat (map (file_fragment extract) fs)"

text \<open>\<open>enhancedMessage\<close> after the block on attached files.\<close>

definition with_files :: "(jsstring \<Rightarrow> jsstring + jsstring) \<Rightarrow> jsstring \<Rightarrow> attachment list \<Rightarrow> jsstring" where
  "with_files extract msg fs = (if fs \<noteq> [] then msg @ fileContext extract fs else msg)"

section \<open>Context augmenter\<close>

text \<open>
  The block guarded by \<open>useKnowledge === true\<close>, step by step. Every call on the loader is
  recorded before its outcome is known. \<open>Inl\<close> is the message of the exception that leaves
  the block.
\<close>

definition log_kb :: "kb_call \<Rightarrow> sstate \<Rightarrow> sstate" where
  "log_kb c st = st\<lparr>kb_calls := kb_calls st @ [c]\<rparr>"

definition ensure_loader :: "'d env \<Rightarrow> sstate \<Rightarrow> (jsstring + nat) \<times> sstate" where
  "ensure_loader e st =
     (case knowledgeLoader st of
        Some n \<Rightarrow> (Inr n, st)
      | None \<Rightarrow>
          (let st1 = log_kb NewLoader st in
           case new_loader e of
             Some err \<Rightarrow> (Inl err, st1)
           | None \<Rightarrow>
               (let st2 = log_kb Initialize (st1\<lparr>knowledgeLoader := Some (new_documents e)\<rparr>) in
                case initialize e of
                  Some err \<Rightarrow> (Inl err, st2)
                | None \<Rightarrow> (Inr (new_documents e), st2))))"

definition ensure_documents :: "'d env \<Rightarrow> nat \<Rightarrow> sstate \<Rightarrow> (jsstring + unit) \<times> sstate" where
  "ensure_documents e n st =
     (if n = 0 then
        (let st1 = log_kb LoadDocuments st in
         case loadDocuments e of
           Inl err \<Rightarrow> (Inl err, st1)
         | Inr m \<Rightarrow> (Inr (), st1\<lparr>knowledgeLoader := Some m\<rparr>))
      else (Inr (), st))"

definition search_context :: "'d env \<Rightarrow> jsstring \<Rightarrow> sstate \<Rightarrow> (jsstring + jsstring) \<times> sstate" where
  "search_context e msg st =
     (let st1 = log_kb (SearchDocuments msg) st in
      case searchDocuments e msg of
        Inl err \<Rightarrow> (Inl err, st1)
      | Inr relevantDocs \<Rightarrow>
          (let st2 = log_kb GenerateContext st1 in
           case generateContext e relevantDocs of
             Inl err \<Rightarrow> (Inl err, st2)
           | Inr knowledgeContext \<Rightarrow> (Inr knowledgeContext, st2)))"

definition knowledge :: "'d env \<Rightarrow> jsstring \<Rightarrow> sstate \<Rightarrow> (jsstring + jsstring) \<times> sstate" where
  "knowledge e msg st =
     (case ensure_loader e st of
        (Inl err, st1) \<Rightarrow> (Inl err, st1)
      | (Inr n, st1) \<Rightarrow>
          (case ensure_documents e n st1 of
             (Inl err, st2) \<Rightarrow> (Inl err, st2)
           | (Inr u, st2) \<Rightarrow> search_context e msg st2))"

text \<open>\<open>userProfile.name || unknown\<close>, and the profile line put in front of the message.\<close>

definition or_unknown_jp :: "jsstring \<Rightarrow> jsstring" where
  "or_unknown_jp t = (if t = [] then txt_unknown_jp else t)"

definition profile_line :: "profile option \<Rightarrow> jsstring" where
  "profile_line up =
     (case up of
        None \<Rightarrow> []
      | Some p \<Rightarrow>
          if pcontext p \<noteq> [] \<and> trim (pcontext p) \<noteq> [] then
            txt_profile @ or_unknown_jp (pname p) @ ascii '', '' @ or_unknown_jp (department p)
              @ ascii '', '' @ pcontext p @ [10, 10]
          else [])"

text \<open>
  The statements of the route from \<open>let enhancedMessage = message\<close> to the profile block:
  \<open>Inl\<close> when the knowledge block throws, otherwise the final \<open>enhancedMessage\<close>.
\<close>

definition augment :: "'d env \<Rightarrow> request \<Rightarrow> sstate \<Rightarrow> (jsstring + jsstring) \<times> sstate" where
  "augment e req st =
     (let enhanced1 = with_files (pdf e) (message req) (files req) in
      case (if useKnowledge req then knowledge e (message req) st else (Inr [], st)) of
        (Inl err, st1) \<Rightarrow> (Inl err, st1)
      | (Inr knowledgeContext, st1) \<Rightarrow>
          (Inr (profile_line (userProfile req) @ enhanced1 @ knowledgeContext), st1))"

section \<open>Provider adapters\<close>

definition log_backend :: "backend_call \<Rightarrow> sstate \<Rightarrow> sstate" where
  "log_backend c st = st\<lparr>backend_calls := backend_calls st @ [c]\<rparr>"

text \<open>\<open>chunk.toString().split('\n').filter(line => line.trim())\<close>.\<close>

definition lines_of :: "jsstring \<Rightarrow> jsstring list" where
  "lines_of chunk = filter (\<lambda>line. trim line \<noteq> []) (split_on 10 chunk)"

subsection \<open>Local model\<close>

definition transcript_line :: "hist_msg \<Rightarrow> jsstring" where
  "transcript_line msg =
     (if role msg = ascii ''user'' then ascii ''User: '' @ content msg @ [10]
      else if role msg = ascii ''assistant'' then ascii ''Assistant: '' @ content msg @ [10]
      else [])"

definition formatPrompt :: "(jsstring \<Rightarrow> jsstring) \<Rightarrow> jsstring \<Rightarrow> hist_msg list \<Rightarrow> jsstring" where
  "formatPrompt persona msg hist =
     (let recentHistory = slice_last 6 hist in
      persona msg @ [10, 10] @ concat (map transcript_line recentHistory)
        @ ascii ''User: '' @ msg @ [10] @ ascii ''Assistant: '')"

text \<open>
  The \<open>for\<close> loop of the \<open>data\<close> listener, which sits inside one \<open>try\<close>: a line that
  \<open>JSON.parse\<close> rejects, or that parses to \<open>null\<close>, throws, and the \<open>catch\<close> after the loop
  ends the processing of the chunk.
\<close>

fun ollama_lines :: "(jsstring \<Rightarrow> json option) \<Rightarrow> jsstring list \<Rightarrow> action list \<Rightarrow> action list" where
  "ollama_lines parse [] r = r"
| "ollama_lines parse (line # rest) r =
     (case parse line of
        None \<Rightarrow> r
      | Some data \<Rightarrow>
          (case member (Val data) (ascii ''response'') of
             None \<Rightarrow> r
           | Some response \<Rightarrow>
               (let r1 = (case response of
                            Val v \<Rightarrow> if truthy response then res_write (Content v) r else r
                          | Undefined \<Rightarrow> r)
                in case member (Val data) (ascii ''done'') of
                     None \<Rightarrow> r1
                   | Some done \<Rightarrow>
                       ollama_lines parse rest
                         (if truthy done then res_end (res_write Done r1) else r1))))"

definition ollama_data :: "(jsstring \<Rightarrow> json option) \<Rightarrow> jsstring \<Rightarrow> action list \<Rightarrow> action list" where
  "ollama_data parse chunk r = ollama_lines parse (lines_of chunk) r"

text \<open>
  A handler returns \<open>Inl\<close> of the message of the exception it throws, \<open>Inr ()\<close> when it
  returns. The \<open>data\<close> events arrive one chunk at a time, in order.
\<close>

definition handleOllamaChat ::
  "'d env \<Rightarrow> jsstring \<Rightarrow> jsstring \<Rightarrow> hist_msg list \<Rightarrow> sstate \<Rightarrow> (jsstring + unit) \<times> sstate" where
  "handleOllamaChat e msg mdl hist st =
     (let prompt = formatPrompt (enhancePrompt e) msg hist;
          call = OllamaGenerate mdl prompt;
          st1 = log_backend call st
      in case axios_post e call of
           Inl err \<Rightarrow> (Inl err, st1)
         | Inr chunks \<Rightarrow>
             (Inr (), st1\<lparr>res := fold (ollama_data (JSON_parse e)) chunks (res st1)\<rparr>))"

subsection \<open>Cloud chat completions\<close>

definition openai_messages :: "(jsstring \<Rightarrow> jsstring) \<Rightarrow> jsstring \<Rightarrow> hist_msg list \<Rightarrow> hist_msg list" where
  "openai_messages persona msg hist =
     [\<lparr>role = ascii ''system'', content = persona msg\<rparr>]
       @ map (\<lambda>m. \<lparr>role = role m, content = content m\<rparr>) hist
       @ [\<lparr>role = ascii ''user'', content = msg\<rparr>]"

text \<open>
  One iteration of the loop of the \<open>data\<close> listener. The \<open>try\<close> is inside the loop, around
  \<open>JSON.parse\<close> and the reads of \<open>parsed.choices[0]?.delta?.content\<close>.
\<close>

definition openai_line :: "(jsstring \<Rightarrow> json option) \<Rightarrow> jsstring \<Rightarrow> action list \<Rightarrow> action list" where
  "openai_line parse line r =
     (if startsWith line (ascii ''data: '') then
        (let data = drop 6 line in
         if data = ascii ''[DONE]'' then res_end (res_write Done r)
         else (case parse data of
                 None \<Rightarrow> r
               | Some parsed \<Rightarrow>
                   (case member (Val parsed) (ascii ''choices'') of
                      None \<Rightarrow> r
                    | Some choices \<Rightarrow>
                        (case index0 choices of
                           None \<Rightarrow> r
                         | Some choice \<Rightarrow>
                             (let c = opt_member (opt_member choice (ascii ''delta''))
                                        (ascii ''content'')
                              in case c of
                                   Val v \<Rightarrow> if truthy c then res_write (Content v) r else r
                                 | Undefined \<Rightarrow> r)))))
      else r)"

definition openai_data :: "(jsstring \<Rightarrow> json option) \<Rightarrow> jsstring \<Rightarrow> action list \<Rightarrow> action list" where
  "openai_data parse chunk r = fold (openai_line parse) (lines_of chunk) r"

definition handleOpenAIChat ::
  "'d env \<Rightarrow> jsstring \<Rightarrow> jsstring \<Rightarrow> hist_msg list \<Rightarrow> sstate \<Rightarrow> (jsstring + unit) \<times> sstate" where
  "handleOpenAIChat e msg mdl hist st =
     (if OPENAI_API_KEY e = [] then (Inl (ascii ''OpenAI API key not configured''), st)
      else
        (let call = OpenAICompletions mdl (openai_messages (enhancePrompt e) msg hist);
             st1 = log_backend call st
         in case axios_post e call of
              Inl err \<Rightarrow> (Inl err, st1)
            | Inr chunks \<Rightarrow>
                (Inr (), st1\<lparr>res := fold (openai_data (JSON_parse e)) chunks (res st1)\<rparr>)))"

subsection \<open>Cloud generative model\<close>

definition modelMap :: "jsstring \<Rightarrow> jsstring option" where
  "modelMap m =
     (if m = ascii ''gemini-2.0-flash'' then Some (ascii ''gemini-2.0-flash-exp'')
      else if m = ascii ''gemini-1.5-pro'' then Some (ascii ''gemini-1.5-pro'')
      else if m = ascii ''gemini-1.5-flash'' then Some (ascii ''gemini-1.5-flash'')
      else if m = ascii ''gemini-flash'' then Some (ascii ''gemini-2.0-flash-exp'')
      else None)"

definition gemini_line :: "hist_msg \<Rightarrow> jsstring" where
  "gemini_line msg =
     (if role msg = ascii ''user'' then txt_user_jp @ content msg @ [10]
      else if role msg = ascii ''assistant'' then txt_assistant_jp @ content msg @ [10]
      else [])"

definition gemini_prompt :: "(jsstring \<Rightarrow> jsstring) \<Rightarrow> jsstring \<Rightarrow> hist_msg list \<Rightarrow> jsstring" where
  "gemini_prompt persona msg hist =
     (let recentHistory = slice_last 10 hist in
      persona msg
        @ (if recentHistory \<noteq> []
           then txt_recent_history @ concat (map gemini_line recentHistory) @ [10]
           else [])
        @ txt_user_jp @ msg @ txt_assistant_jp_nl)"

definition image_parts :: "attachment list \<Rightarrow> part list" where
  "image_parts fs =
     concat (map (\<lambda>f.
        (case fdata f of
           None \<Rightarrow> []
         | Some d \<Rightarrow>
             if ftype f \<noteq> [] \<and> startsWith (ftype f) (ascii ''image/'') \<and> d \<noteq> [] then
               [InlineData (ftype f)
                  (case second_piece d of
                     None \<Rightarrow> d
                   | Some b \<Rightarrow> if b = [] then d else b)]
             else [])) fs)"

definition handleGeminiChat ::
  "'d env \<Rightarrow> jsstring \<Rightarrow> jsstring \<Rightarrow> hist_msg list \<Rightarrow> attachment list \<Rightarrow> sstate
     \<Rightarrow> (jsstring + unit) \<times> sstate" where
  "handleGeminiChat e msg mdl hist fs st =
     (if \<not> genAI e then (Inl (ascii ''Gemini API key not configured''), st)
      else
        (let modelName = (case modelMap mdl of None \<Rightarrow> ascii ''gemini-1.5-flash'' | Some n \<Rightarrow> n);
             fullPrompt = gemini_prompt (enhancePrompt e) msg hist;
             parts = image_parts fs @ [Text fullPrompt];
             call = GeminiGenerate modelName parts;
             st1 = log_backend call st
         in case generateContent e call of
              Inl err \<Rightarrow>
                (Inr (), st1\<lparr>res := res_end (res_write (ErrorF (txt_gemini_error @ err)) (res st1))\<rparr>)
            | Inr txt \<Rightarrow>
                (let enhancedText = processResponse e msg txt in
                 (Inr (), st1\<lparr>res := res_end (res_write Done
                                   (res_write (Content (JStr enhancedText)) (res st1)))\<rparr>))))"

section \<open>The chat route\<close>

text \<open>The \<open>switch\<close> on the provider, with its \<open>default\<close> case that throws.\<close>

definition dispatch :: "'d env \<Rightarrow> jsstring \<Rightarrow> request \<Rightarrow> sstate \<Rightarrow> (jsstring + unit) \<times> sstate" where
  "dispatch e enhancedMessage req st =
     (case switch_provider (getProviderFromModel (model req)) of
        CaseGemini \<Rightarrow> handleGeminiChat e enhancedMessage (model req) (history req) (files req) st
      | CaseOpenAI \<Rightarrow> handleOpenAIChat e enhancedMessage (model req) (history req) st
      | CaseOllama \<Rightarrow> handleOllamaChat e enhancedMessage (model req) (history req) st
      | CaseDefault \<Rightarrow> (Inl (ascii ''Unknown provider''), st))"

text \<open>The \<open>catch\<close> of the route: one error frame, then the end of the response.\<close>

definition catch_error :: "jsstring \<Rightarrow> sstate \<Rightarrow> sstate" where
  "catch_error err st = st\<lparr>res := res_end (res_write (ErrorF err) (res st))\<rparr>"

definition api_chat :: "'d env \<Rightarrow> request \<Rightarrow> sstate \<Rightarrow> sstate" where
  "api_chat e req st =
     (case augment e req st of
        (Inl err, st1) \<Rightarrow> catch_error err st1
      | (Inr enhancedMessage, st1) \<Rightarrow>
          (case dispatch e enhancedMessage req st1 of
             (Inl err, st2) \<Rightarrow> catch_error err st2
           | (Inr u, st2) \<Rightarrow> st2))"

section \<open>Persona\<close>






text \<open>
  The persona module of the server (the class \<open>AiyuPersonality\<close> of \<open>aiyu-personality.js\<close>,
  with the methods \<open>enhancePrompt\<close> and \<open>processResponse\<close> that the handlers call) is not
  among the source files; only its call sites are. In the adapters above its two methods
  are parameters. For the agreement of its two phases it is modelled from the spec, which
  gives it a prompt phase, whose preamble carries a tone directive chosen by a random draw
  ("include suffix" with probability 0.3), and a response phase that appends the persona's
  verbal tic or not, and which says of the source that the decision is taken by "two
  independent random draws". A draw is the outcome of one comparison
  \<open>Math.random() < 0.3\<close>; \<open>rand\<close> is the sequence of these outcomes, and a phase takes the
  next one and moves on. The probability itself is not modelled.
\<close>






section \<open>Sample collaborators\<close>

text \<open>
  Collaborators for the worked examples. \<open>sample_parse\<close> agrees with \<open>JSON.parse\<close> on the
  lines the examples use: three well-formed lines, and every other line of the examples is
  malformed. The sample backend streams nothing, the sample knowledge loader finds nothing.
\<close>

definition sample_parse :: "jsstring \<Rightarrow> json option" where
  \<open>sample_parse l =
     (if l = ascii ''{"response":"Hi"}''
        then Some (JObj [(ascii ''response'', JStr (ascii ''Hi''))])
      else if l = ascii ''{"response":"","done":true}''
        then Some (JObj [(ascii ''response'', JStr []), (ascii ''done'', JBool True)])
      else if l = ascii ''{"choices":[{"delta":{"content":"Hi"}}]}''
        then Some (JObj [(ascii ''choices'',
                    JArr [JObj [(ascii ''delta'', JObj [(ascii ''content'', JStr (ascii ''Hi''))])]])])
      else None)\<close>

definition sample_env :: "unit env" where
  "sample_env =
     \<lparr>OPENAI_API_KEY = [],
      genAI = True,
      JSON_parse = sample_parse,
      pdf = (\<lambda>b. Inr []),
      enhancePrompt = (\<lambda>m. ascii ''Be kind.''),
      processResponse = (\<lambda>m t. t),
      axios_post = (\<lambda>c. Inr []),
      generateContent = (\<lambda>c. Inr (ascii ''Hello'')),
      new_loader = None,
      initialize = None,
      new_documents = 0,
      loadDocuments = Inr 1,
      searchDocuments = (\<lambda>q. Inr ()),
      generateContext = (\<lambda>d. Inr [])\<rparr>"

definition sample_request :: request where
  "sample_request =
     \<lparr>message = ascii ''hello'',
      model = ascii ''llama2'',
      history = [],
      userProfile = None,
      useKnowledge = False,
      files = []\<rparr>"

definition idle :: sstate where
  "idle = \<lparr>knowledgeLoader = None, kb_calls = [], backend_calls = [], res = []\<rparr>"

text \<open>A history of twenty entries, user and assistant in turn, numbered from 0 to 19.\<close>

definition sample_history :: "hist_msg list" where
  "sample_history =
     map (\<lambda>i. \<lparr>role = (if even i then ascii ''user'' else ascii ''assistant''),
               content = show_nat i\<rparr>) [0..<20]"




section \<open>Streams that end with their done marker\<close>

text \<open>
  The lines of one chunk that the loop of the local listener completes, as parsed values:
  the loop stops at the first line that throws.
\<close>

fun ollama_processed :: "(jsstring \<Rightarrow> json option) \<Rightarrow> jsstring list \<Rightarrow> json list" where
  "ollama_processed parse [] = []"
| "ollama_processed parse (line # rest) =
     (case parse line of
        None \<Rightarrow> []
      | Some JNull \<Rightarrow> []
      | Some data \<Rightarrow> data # ollama_processed parse rest)"

definition ollama_stream :: "(jsstring \<Rightarrow> json option) \<Rightarrow> jsstring list \<Rightarrow> json list" where
  "ollama_stream parse chunks = concat (map (\<lambda>chunk. ollama_processed parse (lines_of chunk)) chunks)"

text \<open>A parsed line of the local backend with a truthy \<open>done\<close>.\<close>

definition ollama_is_done :: "json \<Rightarrow> bool" where
  "ollama_is_done data =
     (case member (Val data) (ascii ''done'') of None \<Rightarrow> False | Some d \<Rightarrow> truthy d)"

definition ollama_done_last :: "(jsstring \<Rightarrow> json option) \<Rightarrow> jsstring list \<Rightarrow> bool" where
  "ollama_done_last parse chunks =
     (case rev (ollama_stream parse chunks) of
        [] \<Rightarrow> False
      | d # ds \<Rightarrow> ollama_is_done d \<and> list_all (\<lambda>x. \<not> ollama_is_done x) ds)"

text \<open>The frames that one completed line makes the local listener write.\<close>

definition ollama_emit :: "json \<Rightarrow> action list" where
  "ollama_emit data =
     (case member (Val data) (ascii ''response'') of
        Some (Val v) \<Rightarrow> if truthy (Val v) then [Write (Content v)] else []
      | _ \<Rightarrow> [])
     @ (if ollama_is_done data then [Write Done, End] else [])"

text \<open>The same for the event stream of the OpenAI backend: the line \<open>data: [DONE]\<close>.\<close>

definition openai_is_done :: "jsstring \<Rightarrow> bool" where
  "openai_is_done line = (startsWith line (ascii ''data: '') \<and> drop 6 line = ascii ''[DONE]'')"

definition openai_stream :: "jsstring list \<Rightarrow> jsstring list" where
  "openai_stream chunks = concat (map lines_of chunks)"

definition openai_done_last :: "jsstring list \<Rightarrow> bool" where
  "openai_done_last chunks =
     (case rev (openai_stream chunks) of
        [] \<Rightarrow> False
      | l # ls \<Rightarrow> openai_is_done l \<and> list_all (\<lambda>x. \<not> openai_is_done x) ls)"

section \<open>Properties of the router\<close>

lemma provider_tags_distinct:
  "ascii ''gemini'' \<noteq> ascii ''openai''"
  "ascii ''gemini'' \<noteq> ascii ''ollama''"
  "ascii ''openai'' \<noteq> ascii ''ollama''"
  by (simp_all add: ascii_def)

lemma includes_js_startsWith: "startsWith m p \<Longrightarrow> includes_js m p"
  by (cases m) (auto simp: startsWith_def)

text \<open>
  Claim C10. Whatever the model identifier, \<open>getProviderFromModel\<close> returns one of the three
  tags \<open>gemini\<close>, \<open>openai\<close>, \<open>ollama\<close>: \<open>gemini\<close> when the identifier contains "gemini",
  otherwise \<open>openai\<close> when it starts with "gpt", otherwise \<open>ollama\<close>. So the \<open>switch\<close> of
  the chat route never takes its \<open>default\<close> case, the one that throws "Unknown provider":
  it always calls one of the three handlers.
\<close>

theorem router_total:
  "getProviderFromModel m \<in> {ascii ''gemini'', ascii ''openai'', ascii ''ollama''}
   \<and> getProviderFromModel m =
       (if includes_js m (ascii ''gemini'') then ascii ''gemini''
        else if startsWith m (ascii ''gpt'') then ascii ''openai''
        else ascii ''ollama'')
   \<and> switch_provider (getProviderFromModel m) \<noteq> CaseDefault
   \<and> dispatch e enhanced req st \<in>
       {handleGeminiChat e enhanced (model req) (history req) (files req) st,
        handleOpenAIChat e enhanced (model req) (history req) st,
        handleOllamaChat e enhanced (model req) (history req) st}"
proof -
  have tag: "getProviderFromModel x =
       (if includes_js x (ascii ''gemini'') then ascii ''gemini''
        else if startsWith x (ascii ''gpt'') then ascii ''openai''
        else ascii ''ollama'')" for x
    using includes_js_startsWith [of x "ascii ''gemini''"]
    by (auto simp: getProviderFromModel_def)
  show ?thesis
    by (auto simp: tag switch_provider_def dispatch_def provider_tags_distinct)
qed

section \<open>What the stages of a turn leave untouched\<close>

lemma ensure_loader_frame:
  "res (snd (ensure_loader e st)) = res st"
  "backend_calls (snd (ensure_loader e st)) = backend_calls st"
  by (simp_all add: ensure_loader_def log_kb_def Let_def split: option.splits)

lemma ensure_documents_frame:
  "res (snd (ensure_documents e n st)) = res st"
  "backend_calls (snd (ensure_documents e n st)) = backend_calls st"
  by (simp_all add: ensure_documents_def log_kb_def Let_def split: sum.splits)

lemma search_context_frame:
  "res (snd (search_context e m st)) = res st"
  "backend_calls (snd (search_context e m st)) = backend_calls st"
  by (simp_all add: search_context_def log_kb_def Let_def split: sum.splits)

lemma knowledge_frame:
  "res (snd (knowledge e m st)) = res st"
  "backend_calls (snd (knowledge e m st)) = backend_calls st"
  using ensure_loader_frame [of e st]
    ensure_documents_frame [of e _ "snd (ensure_loader e st)"]
    search_context_frame [of e m]
  by (auto simp: knowledge_def split: prod.splits sum.splits) (metis snd_conv)+

lemma augment_frame:
  "res (snd (augment e req st)) = res st"
  "backend_calls (snd (augment e req st)) = backend_calls st"
  using knowledge_frame [of e "message req" st]
  by (auto simp: augment_def Let_def split: prod.splits sum.splits if_splits)

lemma augment_no_knowledge:
  "\<not> useKnowledge req \<Longrightarrow>
     augment e req st = (Inr (profile_line (userProfile req)
        @ with_files (pdf e) (message req) (files req)), st)"
  by (simp add: augment_def)

lemma handleOllamaChat_kb:
  "kb_calls (snd (handleOllamaChat e m mdl h st)) = kb_calls st"
  "knowledgeLoader (snd (handleOllamaChat e m mdl h st)) = knowledgeLoader st"
  by (simp_all add: handleOllamaChat_def log_backend_def Let_def split: sum.splits)

lemma handleOpenAIChat_kb:
  "kb_calls (snd (handleOpenAIChat e m mdl h st)) = kb_calls st"
  "knowledgeLoader (snd (handleOpenAIChat e m mdl h st)) = knowledgeLoader st"
  by (simp_all add: handleOpenAIChat_def log_backend_def Let_def split: sum.splits)

lemma handleGeminiChat_kb:
  "kb_calls (snd (handleGeminiChat e m mdl h fs st)) = kb_calls st"
  "knowledgeLoader (snd (handleGeminiChat e m mdl h fs st)) = knowledgeLoader st"
  by (simp_all add: handleGeminiChat_def log_backend_def Let_def split: sum.splits)

lemma dispatch_kb:
  "kb_calls (snd (dispatch e m req st)) = kb_calls st"
  "knowledgeLoader (snd (dispatch e m req st)) = knowledgeLoader st"
  by (simp_all add: dispatch_def handleOllamaChat_kb handleOpenAIChat_kb handleGeminiChat_kb
        split: branch.splits)

lemma api_chat_kb:
  "kb_calls (api_chat e req st) = kb_calls (snd (augment e req st))"
  "knowledgeLoader (api_chat e req st) = knowledgeLoader (snd (augment e req st))"
  using dispatch_kb [of e _ req "snd (augment e req st)"]
  by (auto simp: api_chat_def catch_error_def split: prod.splits sum.splits) (metis snd_conv)+

section \<open>Knowledge base\<close>

text \<open>
  Claim C8. In a turn whose \<open>useKnowledge\<close> flag is false the knowledge loader is never
  touched: no call is made on it (it is not constructed or initialised, no documents are
  loaded, nothing is searched, no context is generated) and the module variable that holds
  it is left as it was.
\<close>

theorem knowledge_base_not_invoked:
  "\<not> useKnowledge req \<Longrightarrow>
     kb_calls (api_chat e req st) = kb_calls st
     \<and> knowledgeLoader (api_chat e req st) = knowledgeLoader st"
  by (simp add: api_chat_kb augment_no_knowledge)

text \<open>
  The sample turn has the flag off; its loader would throw on construction, and is never
  constructed.
\<close>

theorem knowledge_base_not_invoked_witness:
  "\<not> useKnowledge sample_request
   \<and> kb_calls (api_chat (sample_env\<lparr>new_loader := Some (ascii ''ENOENT'')\<rparr>)
        sample_request idle) = []
   \<and> knowledgeLoader (api_chat (sample_env\<lparr>new_loader := Some (ascii ''ENOENT'')\<rparr>)
        sample_request idle) = None"
  using knowledge_base_not_invoked
    [of sample_request "sample_env\<lparr>new_loader := Some (ascii ''ENOENT'')\<rparr>" idle]
  by (simp add: sample_request_def idle_def)

section \<open>Failures before and at the provider\<close>

lemma api_chat_throw:
  assumes "augment e req st = (Inl err, st1)"
  shows "api_chat e req st = catch_error err st1"
  using assms by (simp add: api_chat_def)

text \<open>
  Claim C5. A turn that is routed to the OpenAI handler while no OpenAI API key is
  configured fails at once: the handler throws before it builds a request, so no backend
  call is made, and the route answers with one error frame, "OpenAI API key not
  configured", and ends the response. No content frame is written.
\<close>

theorem openai_key_missing:
  assumes routed: "switch_provider (getProviderFromModel (model req)) = CaseOpenAI"
    and no_key: "OPENAI_API_KEY e = []"
    and augmented: "fst (augment e req st) = Inr m"
  shows "res (api_chat e req st) =
           res st @ [Write (ErrorF (ascii ''OpenAI API key not configured'')), End]
         \<and> backend_calls (api_chat e req st) = backend_calls st"
proof -
  obtain st1 where a: "augment e req st = (Inr m, st1)"
    using augmented by (cases "augment e req st") auto
  have frame: "res st1 = res st" "backend_calls st1 = backend_calls st"
    using augment_frame [of e req st] a by simp_all
  have "dispatch e m req st1 = (Inl (ascii ''OpenAI API key not configured''), st1)"
    using routed no_key by (simp add: dispatch_def handleOpenAIChat_def)
  then have "api_chat e req st = catch_error (ascii ''OpenAI API key not configured'') st1"
    using a by (simp add: api_chat_def)
  then show ?thesis
    using frame by (simp add: catch_error_def res_write_def res_end_def)
qed

text \<open>The sample turn with the model \<open>gpt-4\<close>, and no key in the sample environment.\<close>

lemma gpt4_routed: "switch_provider (getProviderFromModel (ascii ''gpt-4'')) = CaseOpenAI"
  by (simp add: getProviderFromModel_def switch_provider_def startsWith_def ascii_def)

theorem openai_key_missing_witness:
  "switch_provider (getProviderFromModel (ascii ''gpt-4'')) = CaseOpenAI
   \<and> OPENAI_API_KEY sample_env = []
   \<and> res (api_chat sample_env (sample_request\<lparr>model := ascii ''gpt-4''\<rparr>) idle) =
     [Write (ErrorF (ascii ''OpenAI API key not configured'')), End]
   \<and> backend_calls (api_chat sample_env (sample_request\<lparr>model := ascii ''gpt-4''\<rparr>) idle) = []"
  using openai_key_missing [of "sample_request\<lparr>model := ascii ''gpt-4''\<rparr>" sample_env idle
      "ascii ''hello''"]
  by (simp add: gpt4_routed augment_no_knowledge sample_request_def sample_env_def idle_def
        profile_line_def with_files_def)

text \<open>
  Claim C3, as amended. The knowledge block sits in the \<open>try\<close> of the whole route, with no
  handler of its own. When the flag is on and the block throws (the constructor or
  \<open>initialize\<close> of the loader throws, \<open>loadDocuments\<close> rejects, \<open>searchDocuments\<close> or
  \<open>generateContext\<close> throws), the turn is aborted: the response carries one error frame
  with the message of the failure and is ended, and no provider handler is called.
\<close>

theorem knowledge_failure_aborts:
  assumes "useKnowledge req"
    and "fst (knowledge e (message req) st) = Inl err"
  shows "res (api_chat e req st) = res st @ [Write (ErrorF err), End]
         \<and> backend_calls (api_chat e req st) = backend_calls st"
proof -
  obtain st1 where k: "knowledge e (message req) st = (Inl err, st1)"
    using assms(2) by (cases "knowledge e (message req) st") auto
  have frame: "res st1 = res st" "backend_calls st1 = backend_calls st"
    using knowledge_frame [of e "message req" st] k by simp_all
  have "augment e req st = (Inl err, st1)"
    using assms(1) k by (simp add: augment_def)
  then have "api_chat e req st = catch_error err st1"
    by (rule api_chat_throw)
  then show ?thesis
    using frame by (simp add: catch_error_def res_write_def res_end_def)
qed

text \<open>A search that throws, on an index that loaded.\<close>

lemma search_throws:
  "knowledge (sample_env\<lparr>searchDocuments := (\<lambda>q. Inl (ascii ''index is corrupt''))\<rparr>)
     (ascii ''hello'') idle =
   (Inl (ascii ''index is corrupt''),
    \<lparr>knowledgeLoader = Some 1,
     kb_calls = [NewLoader, Initialize, LoadDocuments, SearchDocuments (ascii ''hello'')],
     backend_calls = [], res = []\<rparr>)"
  by (simp add: knowledge_def ensure_loader_def ensure_documents_def search_context_def
        log_kb_def sample_env_def idle_def)

theorem knowledge_failure_aborts_witness:
  "useKnowledge (sample_request\<lparr>useKnowledge := True\<rparr>)
   \<and> res (api_chat (sample_env\<lparr>searchDocuments := (\<lambda>q. Inl (ascii ''index is corrupt''))\<rparr>)
          (sample_request\<lparr>useKnowledge := True\<rparr>) idle) =
     [Write (ErrorF (ascii ''index is corrupt'')), End]
   \<and> backend_calls (api_chat (sample_env\<lparr>searchDocuments := (\<lambda>q. Inl (ascii ''index is corrupt''))\<rparr>)
          (sample_request\<lparr>useKnowledge := True\<rparr>) idle) = []"
  using knowledge_failure_aborts
    [of "sample_request\<lparr>useKnowledge := True\<rparr>"
        "sample_env\<lparr>searchDocuments := (\<lambda>q. Inl (ascii ''index is corrupt''))\<rparr>" idle
        "ascii ''index is corrupt''"]
  by (simp add: search_throws sample_request_def) (simp add: idle_def)

text \<open>
  Claim C3 as stated fails: with the flag on and a loader whose documents cannot be
  loaded, the caller receives an error frame and the backend is never called.
\<close>

theorem knowledge_failure_counterexample:
  "useKnowledge (sample_request\<lparr>useKnowledge := True\<rparr>)
   \<and> api_chat (sample_env\<lparr>loadDocuments := Inl (ascii ''ENOENT'')\<rparr>)
        (sample_request\<lparr>useKnowledge := True\<rparr>) idle =
     \<lparr>knowledgeLoader = Some 0,
      kb_calls = [NewLoader, Initialize, LoadDocuments],
      backend_calls = [],
      res = [Write (ErrorF (ascii ''ENOENT'')), End]\<rparr>"
  by (simp add: api_chat_def augment_def knowledge_def ensure_loader_def ensure_documents_def
        log_kb_def catch_error_def res_write_def res_end_def sample_env_def sample_request_def
        idle_def with_files_def)

section \<open>History windows\<close>

lemma hist_msg_copy: "map (\<lambda>m. \<lparr>role = role m, content = content m\<rparr>) h = h"
  by (induction h) simp_all

lemma openai_messages_all:
  "openai_messages p m h =
     \<lparr>role = ascii ''system'', content = p m\<rparr> # h @ [\<lparr>role = ascii ''user'', content = m\<rparr>]"
  by (simp add: openai_messages_def hist_msg_copy)

lemma length_sample_history: "length sample_history = 20"
  by (simp add: sample_history_def)

text \<open>
  Claim C2, on a history of twenty entries. The OpenAI handler maps over the whole history:
  its message list holds the system message, all twenty entries and the current message,
  twenty-two messages, where the claim asks for the last ten entries only. The local
  handler does cut its transcript: \<open>formatPrompt\<close> renders the last six entries, those from
  the fifteenth on.
\<close>

theorem openai_sends_whole_history:
  "length sample_history = 20
   \<and> openai_messages p m sample_history =
       \<lparr>role = ascii ''system'', content = p m\<rparr> # sample_history
         @ [\<lparr>role = ascii ''user'', content = m\<rparr>]
   \<and> length (openai_messages p m sample_history) = 22
   \<and> formatPrompt p m sample_history =
       p m @ [10, 10] @ concat (map transcript_line (drop 14 sample_history))
         @ ascii ''User: '' @ m @ [10] @ ascii ''Assistant: ''
   \<and> length (drop 14 sample_history) = 6"
  by (simp add: openai_messages_all length_sample_history formatPrompt_def slice_last_def)

section \<open>Malformed lines in a backend stream\<close>

lemma sample_parse_malformed: \<open>sample_parse (ascii ''nse":"b"}'') = None\<close>
  by (simp add: sample_parse_def ascii_def)

lemma sample_parse_hi:
  \<open>sample_parse (ascii ''{"response":"Hi"}'') =
     Some (JObj [(ascii ''response'', JStr (ascii ''Hi''))])\<close>
  by (simp add: sample_parse_def)

lemma lines_split_chunk:
  \<open>lines_of (ascii ''nse":"b"}\<newline>{"response":"Hi"}\<newline>'') =
     [ascii ''nse":"b"}'', ascii ''{"response":"Hi"}'']\<close>
  by (simp add: lines_of_def ascii_def trim_def is_ws_def)

lemma lines_whole_chunk:
  \<open>lines_of (ascii ''{"response":"Hi"}\<newline>'') = [ascii ''{"response":"Hi"}'']\<close>
  by (simp add: lines_of_def ascii_def trim_def is_ws_def)

lemma lines_sse_chunk:
  \<open>lines_of (ascii ''data: nse":"b"}\<newline>data: {"choices":[{"delta":{"content":"Hi"}}]}\<newline>'') =
     [ascii ''data: nse":"b"}'', ascii ''data: {"choices":[{"delta":{"content":"Hi"}}]}'']\<close>
  by (simp add: lines_of_def ascii_def trim_def is_ws_def)

lemma ollama_line_hi:
  \<open>ollama_lines sample_parse [ascii ''{"response":"Hi"}''] r =
     r @ [Write (Content (JStr (ascii ''Hi'')))]\<close>
  by (simp add: sample_parse_hi res_write_def) (simp add: ascii_def)

text \<open>
  Claim C6, on a chunk that starts with the tail of a line cut by the transport and
  goes on with a complete line. The listener of the local handler has its \<open>try\<close> around the
  whole loop, so the malformed first line ends the chunk and the well-formed line after
  it yields no frame, though alone in a chunk it yields its content frame. The listener of
  the OpenAI handler has its \<open>try\<close> inside the loop and converts the line that follows a
  malformed one.
\<close>

theorem ollama_malformed_line_drops_rest:
  \<open>ollama_data sample_parse (ascii ''nse":"b"}\<newline>{"response":"Hi"}\<newline>'') [] = []
   \<and> ollama_data sample_parse (ascii ''{"response":"Hi"}\<newline>'') [] =
       [Write (Content (JStr (ascii ''Hi'')))]
   \<and> openai_data sample_parse
        (ascii ''data: nse":"b"}\<newline>data: {"choices":[{"delta":{"content":"Hi"}}]}\<newline>'') [] =
       [Write (Content (JStr (ascii ''Hi'')))]\<close>
proof (intro conjI)
  show \<open>ollama_data sample_parse (ascii ''nse":"b"}\<newline>{"response":"Hi"}\<newline>'') [] = []\<close>
    by (simp add: ollama_data_def lines_split_chunk sample_parse_malformed)
  show \<open>ollama_data sample_parse (ascii ''{"response":"Hi"}\<newline>'') [] =
       [Write (Content (JStr (ascii ''Hi'')))]\<close>
    using ollama_line_hi [of "[]"]
    by (simp add: ollama_data_def lines_whole_chunk del: ollama_lines.simps)
  show \<open>openai_data sample_parse
        (ascii ''data: nse":"b"}\<newline>data: {"choices":[{"delta":{"content":"Hi"}}]}\<newline>'') [] =
       [Write (Content (JStr (ascii ''Hi'')))]\<close>
    unfolding openai_data_def lines_sse_chunk
    by (simp add: openai_line_def startsWith_def ascii_def sample_parse_def Let_def
          opt_member_def res_write_def res_end_def)
qed

section \<open>The two phases of the persona\<close>



section \<open>Order of the augmented message\<close>








section \<open>PDF attachments\<close>



























section \<open>Termination of the event stream\<close>

lemma router_cases: "switch_provider (getProviderFromModel m) \<noteq> CaseDefault"
  by (auto simp: getProviderFromModel_def switch_provider_def provider_tags_distinct)

lemma well_terminated_snoc:
  "well_terminated (pre @ [Write f, End]) = (is_terminal f \<and> list_all is_content_write pre)"
  by (simp add: well_terminated_def)

lemma content_not_terminal: "is_content_write a \<Longrightarrow> \<not> is_terminal_write a"
  by (cases a rule: is_content_write.cases) auto

lemma content_writes_no_terminal:
  "list_all is_content_write pre \<Longrightarrow> filter is_terminal_write pre = []"
  by (induction pre) (auto dest: content_not_terminal)

lemma well_terminated_shape:
  assumes "well_terminated r"
  shows "\<exists>pre f. r = pre @ [Write f, End] \<and> is_terminal f \<and> list_all is_content_write pre"
proof -
  obtain f pre where "rev r = End # Write f # pre" "is_terminal f" "list_all is_content_write pre"
    using assms
    by (auto simp: well_terminated_def split: list.splits action.splits)
  then have "r = rev pre @ [Write f, End] \<and> is_terminal f \<and> list_all is_content_write (rev pre)"
    by (metis (no_types) append_Cons append_Nil append_assoc list_all_rev rev.simps(2) rev_rev_ident)
  then show ?thesis by blast
qed

lemma well_terminated_one_terminal:
  "well_terminated r \<Longrightarrow> length (filter is_terminal_write r) = 1"
  using well_terminated_shape [of r] by (auto simp: content_writes_no_terminal)

text \<open>
  What a listener writes depends only on the lines it completes: the frames of the first
  line, then those of the second, and so on, appended to what was written before.
\<close>

lemma ollama_lines_emit:
  "ollama_lines parse ls r = r @ concat (map ollama_emit (ollama_processed parse ls))"
proof (induction ls arbitrary: r)
  case Nil
  then show ?case by simp
next
  case (Cons l ls)
  show ?case
  proof (cases "parse l")
    case None
    then show ?thesis by simp
  next
    case (Some data)
    show ?thesis
    proof (cases "data = JNull")
      case True
      then show ?thesis using Some by simp
    next
      case False
      then obtain x where x: "member (Val data) (ascii ''response'') = Some x"
        by (cases data) auto
      from False obtain y where y: "member (Val data) (ascii ''done'') = Some y"
        by (cases data) auto
      have proc: "ollama_processed parse (l # ls) = data # ollama_processed parse ls"
        using Some False by (cases data) auto
      have step: "ollama_lines parse (l # ls) r =
          ollama_lines parse ls (r @ ollama_emit data)"
        using Some x y
        by (cases x) (auto simp: ollama_emit_def ollama_is_done_def res_write_def res_end_def)
      show ?thesis
        unfolding step proc by (simp add: Cons.IH)
    qed
  qed
qed

lemma ollama_fold_emit:
  "fold (ollama_data parse) chunks r = r @ concat (map ollama_emit (ollama_stream parse chunks))"
  by (induction chunks arbitrary: r)
     (simp_all add: ollama_stream_def ollama_data_def ollama_lines_emit)

lemma ollama_emit_content: "\<not> ollama_is_done d \<Longrightarrow> list_all is_content_write (ollama_emit d)"
  by (auto simp: ollama_emit_def split: option.splits jsval.splits)

lemma ollama_emit_done:
  "ollama_is_done d \<Longrightarrow>
     \<exists>pre. ollama_emit d = pre @ [Write Done, End] \<and> list_all is_content_write pre"
  by (auto simp: ollama_emit_def split: option.splits jsval.splits)

lemma ollama_emit_all_content:
  "list_all (\<lambda>x. \<not> ollama_is_done x) ds \<Longrightarrow>
     list_all is_content_write (concat (map ollama_emit ds))"
  by (induction ds) (auto simp: ollama_emit_content)

lemma ollama_done_last_terminated:
  assumes "ollama_done_last parse chunks"
  shows "well_terminated (fold (ollama_data parse) chunks [])"
proof -
  obtain d ds where s: "rev (ollama_stream parse chunks) = d # ds"
    and d: "ollama_is_done d" and ds: "list_all (\<lambda>x. \<not> ollama_is_done x) ds"
    using assms by (auto simp: ollama_done_last_def split: list.splits)
  have stream: "ollama_stream parse chunks = rev ds @ [d]"
    using s by (metis rev.simps(2) rev_rev_ident)
  obtain pre where pre: "ollama_emit d = pre @ [Write Done, End]" "list_all is_content_write pre"
    using ollama_emit_done [OF d] by blast
  have before: "list_all is_content_write (concat (map ollama_emit (rev ds)))"
    using ds by (intro ollama_emit_all_content) simp
  have "fold (ollama_data parse) chunks [] =
          (concat (map ollama_emit (rev ds)) @ pre) @ [Write Done, End]"
    by (simp add: ollama_fold_emit stream pre)
  then show ?thesis
    using before pre(2) by (simp only: well_terminated_snoc) simp
qed


lemma openai_line_emit: "openai_line parse l r = r @ openai_line parse l []"
  by (auto simp: openai_line_def Let_def res_write_def res_end_def
        split: option.splits jsval.splits)

lemma openai_lines_emit:
  "fold (openai_line parse) ls r = r @ concat (map (\<lambda>l. openai_line parse l []) ls)"
proof (induction ls arbitrary: r)
  case Nil
  then show ?case by simp
next
  case (Cons l ls)
  show ?case
    using openai_line_emit [of parse l r] by (simp add: Cons.IH)
qed

lemma openai_fold_emit:
  "fold (openai_data parse) chunks r =
     r @ concat (map (\<lambda>l. openai_line parse l []) (openai_stream chunks))"
  by (induction chunks arbitrary: r)
     (simp_all add: openai_stream_def openai_data_def openai_lines_emit)

lemma openai_line_content:
  "\<not> openai_is_done l \<Longrightarrow> list_all is_content_write (openai_line parse l [])"
  by (auto simp: openai_line_def openai_is_done_def Let_def res_write_def
        split: option.splits jsval.splits)

lemma openai_line_done: "openai_is_done l \<Longrightarrow> openai_line parse l [] = [Write Done, End]"
  by (simp add: openai_line_def openai_is_done_def res_write_def res_end_def)

lemma openai_lines_all_content:
  "list_all (\<lambda>x. \<not> openai_is_done x) ls \<Longrightarrow>
     list_all is_content_write (concat (map (\<lambda>l. openai_line parse l []) ls))"
  by (induction ls) (auto simp: openai_line_content)

lemma openai_done_last_terminated:
  assumes "openai_done_last chunks"
  shows "well_terminated (fold (openai_data parse) chunks [])"
proof -
  obtain l ls where s: "rev (openai_stream chunks) = l # ls"
    and l: "openai_is_done l" and ls: "list_all (\<lambda>x. \<not> openai_is_done x) ls"
    using assms by (auto simp: openai_done_last_def split: list.splits)
  have stream: "openai_stream chunks = rev ls @ [l]"
    using s by (metis rev.simps(2) rev_rev_ident)
  have before: "list_all is_content_write (concat (map (\<lambda>l. openai_line parse l []) (rev ls)))"
    using ls by (intro openai_lines_all_content) simp
  have "fold (openai_data parse) chunks [] =
          concat (map (\<lambda>l. openai_line parse l []) (rev ls)) @ [Write Done, End]"
    by (simp add: openai_fold_emit stream openai_line_done [OF l])
  then show ?thesis
    using before by (simp only: well_terminated_snoc) simp
qed

text \<open>The handlers one by one, and the \<open>catch\<close> of the route.\<close>

lemma catch_error_terminated: "res st = [] \<Longrightarrow> well_terminated (res (catch_error err st))"
  by (simp add: catch_error_def res_write_def res_end_def well_terminated_def)

lemma gemini_terminated:
  assumes "res st = []" and "handleGeminiChat e m mdl h fs st = (Inr u, st2)"
  shows "well_terminated (res st2)"
  using assms
  by (auto simp: handleGeminiChat_def log_backend_def Let_def res_write_def res_end_def
        well_terminated_def split: if_splits sum.splits)

lemma handler_throw_res:
  "handleGeminiChat e m mdl h fs st = (Inl err, st2) \<Longrightarrow> res st2 = res st"
  "handleOpenAIChat e m mdl h st = (Inl err, st2) \<Longrightarrow> res st2 = res st"
  "handleOllamaChat e m mdl h st = (Inl err, st2) \<Longrightarrow> res st2 = res st"
  by (auto simp: handleGeminiChat_def handleOpenAIChat_def handleOllamaChat_def log_backend_def
        Let_def split: if_splits sum.splits)

lemma ollama_return_res:
  assumes "handleOllamaChat e m mdl h st = (Inr u, st2)"
  shows "\<exists>c chunks. axios_post e c = Inr chunks
           \<and> res st2 = fold (ollama_data (JSON_parse e)) chunks (res st)"
  using assms
  by (auto simp: handleOllamaChat_def log_backend_def Let_def split: sum.splits) blast

lemma openai_return_res:
  assumes "handleOpenAIChat e m mdl h st = (Inr u, st2)"
  shows "\<exists>c chunks. axios_post e c = Inr chunks
           \<and> res st2 = fold (openai_data (JSON_parse e)) chunks (res st)"
  using assms
  by (auto simp: handleOpenAIChat_def log_backend_def Let_def split: if_splits sum.splits) blast

lemma dispatch_throw_res: "dispatch e m req st = (Inl err, st2) \<Longrightarrow> res st2 = res st"
  by (auto simp: dispatch_def split: branch.splits dest: handler_throw_res)

text \<open>
  Claim C1, as amended. The response of a turn is made of content frames, then exactly one
  terminal frame (\<open>done\<close> or \<open>error\<close>), then the end of the response, in each of these
  cases: the Gemini handler takes the turn; the augmentation or the handler throws (a
  failing knowledge base, a missing key, a rejected backend request); the Ollama or the
  OpenAI handler receives a stream whose done marker (a line with a truthy \<open>done\<close>, or the
  line \<open>data: [DONE]\<close>) occurs once, in the last line that the listener completes.
\<close>

theorem turn_well_terminated:
  assumes fresh: "res st = []"
    and ollama: "\<And>c chunks. switch_provider (getProviderFromModel (model req)) = CaseOllama \<Longrightarrow>
          axios_post e c = Inr chunks \<Longrightarrow> ollama_done_last (JSON_parse e) chunks"
    and openai: "\<And>c chunks. switch_provider (getProviderFromModel (model req)) = CaseOpenAI \<Longrightarrow>
          axios_post e c = Inr chunks \<Longrightarrow> openai_done_last chunks"
  shows "well_terminated (res (api_chat e req st))
         \<and> length (filter is_terminal_write (res (api_chat e req st))) = 1"
proof -
  have wt: "well_terminated (res (api_chat e req st))"
  proof (cases "augment e req st")
    case (Pair a st1)
    have fresh1: "res st1 = []"
      using augment_frame(1) [of e req st] Pair fresh by simp
    show ?thesis
    proof (cases a)
      case (Inl err)
      then show ?thesis
        using Pair fresh1 by (simp add: api_chat_def catch_error_terminated)
    next
      case (Inr m)
      show ?thesis
      proof (cases "dispatch e m req st1")
        case disp: (Pair b st2)
        have chat: "api_chat e req st = (case b of Inl err \<Rightarrow> catch_error err st2 | Inr u \<Rightarrow> st2)"
          using Pair Inr disp by (simp add: api_chat_def)
        show ?thesis
        proof (cases b)
          case (Inl err)
          have "res st2 = []"
            using disp Inl fresh1 dispatch_throw_res [of e m req st1 err st2] by simp
          then show ?thesis
            using chat Inl by (simp add: catch_error_terminated)
        next
          case (Inr u)
          have not_default: "switch_provider (getProviderFromModel (model req)) \<noteq> CaseDefault"
            using router_cases [of "model req"] by simp
          show ?thesis
          proof (cases "switch_provider (getProviderFromModel (model req))")
            case CaseGemini
            then show ?thesis
              using chat Inr disp fresh1 gemini_terminated by (simp add: dispatch_def)
          next
            case CaseOpenAI
            then obtain c chunks where "axios_post e c = Inr chunks"
              "res st2 = fold (openai_data (JSON_parse e)) chunks []"
              using disp Inr fresh1 openai_return_res [of e m "model req" "history req" st1 u st2]
              by (auto simp: dispatch_def)
            then show ?thesis
              using chat Inr openai [OF CaseOpenAI] openai_done_last_terminated by simp
          next
            case CaseOllama
            then obtain c chunks where "axios_post e c = Inr chunks"
              "res st2 = fold (ollama_data (JSON_parse e)) chunks []"
              using disp Inr fresh1 ollama_return_res [of e m "model req" "history req" st1 u st2]
              by (auto simp: dispatch_def)
            then show ?thesis
              using chat Inr ollama [OF CaseOllama] ollama_done_last_terminated by simp
          next
            case CaseDefault
            then show ?thesis using not_default by simp
          qed
        qed
      qed
    qed
  qed
  then show ?thesis
    by (simp add: well_terminated_one_terminal)
qed


text \<open>The sample turn goes to the local handler, whose stream is a parameter here.\<close>

lemma llama2_routed: "switch_provider (getProviderFromModel (ascii ''llama2'')) = CaseOllama"
  by (simp add: getProviderFromModel_def switch_provider_def startsWith_def ascii_def)

lemma sample_turn_ollama:
  "api_chat (sample_env\<lparr>axios_post := (\<lambda>c. Inr chunks)\<rparr>) sample_request idle =
     \<lparr>knowledgeLoader = None, kb_calls = [],
      backend_calls =
        [OllamaGenerate (ascii ''llama2'')
           (formatPrompt (\<lambda>m. ascii ''Be kind.'') (ascii ''hello'') [])],
      res = fold (ollama_data sample_parse) chunks []\<rparr>"
  by (simp add: api_chat_def augment_no_knowledge dispatch_def handleOllamaChat_def
        log_backend_def sample_request_def sample_env_def idle_def profile_line_def
        with_files_def llama2_routed)

lemma sample_parse_done:
  \<open>sample_parse (ascii ''{"response":"","done":true}'') =
     Some (JObj [(ascii ''response'', JStr []), (ascii ''done'', JBool True)])\<close>
  by (simp add: sample_parse_def ascii_def)

lemma lines_done_chunk:
  \<open>lines_of (ascii ''{"response":"","done":true}\<newline>'') = [ascii ''{"response":"","done":true}'']\<close>
  by (simp add: lines_of_def ascii_def trim_def is_ws_def)

lemma sample_stream:
  \<open>ollama_stream sample_parse
     [ascii ''{"response":"Hi"}\<newline>'', ascii ''{"response":"","done":true}\<newline>''] =
   [JObj [(ascii ''response'', JStr (ascii ''Hi''))],
    JObj [(ascii ''response'', JStr []), (ascii ''done'', JBool True)]]\<close>
  by (simp add: ollama_stream_def lines_whole_chunk lines_done_chunk sample_parse_hi
        sample_parse_done)

lemma sample_stream_done_last:
  \<open>ollama_done_last sample_parse
     [ascii ''{"response":"Hi"}\<newline>'', ascii ''{"response":"","done":true}\<newline>'']\<close>
  by (simp add: ollama_done_last_def sample_stream ollama_is_done_def) (simp add: ascii_def)

lemma sample_env_parse: "JSON_parse sample_env = sample_parse"
  by (simp add: sample_env_def)

lemma sample_stream_emitted:
  \<open>fold (ollama_data sample_parse)
      [ascii ''{"response":"Hi"}\<newline>'', ascii ''{"response":"","done":true}\<newline>''] [] =
      [Write (Content (JStr (ascii ''Hi''))), Write Done, End]\<close>
  unfolding ollama_fold_emit sample_stream
  by (simp add: ollama_emit_def ollama_is_done_def ascii_def)

text \<open>A stream of two chunks, a content line and the done line.\<close>

theorem turn_well_terminated_witness:
  \<open>well_terminated (res (api_chat
      (sample_env\<lparr>axios_post := (\<lambda>c. Inr [ascii ''{"response":"Hi"}\<newline>'',
                                           ascii ''{"response":"","done":true}\<newline>''])\<rparr>)
      sample_request idle))
   \<and> length (filter is_terminal_write (res (api_chat
      (sample_env\<lparr>axios_post := (\<lambda>c. Inr [ascii ''{"response":"Hi"}\<newline>'',
                                           ascii ''{"response":"","done":true}\<newline>''])\<rparr>)
      sample_request idle))) = 1
   \<and> res (api_chat
      (sample_env\<lparr>axios_post := (\<lambda>c. Inr [ascii ''{"response":"Hi"}\<newline>'',
                                           ascii ''{"response":"","done":true}\<newline>''])\<rparr>)
      sample_request idle) =
     [Write (Content (JStr (ascii ''Hi''))), Write Done, End]\<close>
proof -
  let ?e = \<open>sample_env\<lparr>axios_post := (\<lambda>c. Inr [ascii ''{"response":"Hi"}\<newline>'',
                                           ascii ''{"response":"","done":true}\<newline>''])\<rparr>\<close>
  have fresh: "res idle = []"
    by (simp add: idle_def)
  have routed: "switch_provider (getProviderFromModel (model sample_request)) = CaseOllama"
    by (simp add: sample_request_def llama2_routed)
  have shape: "well_terminated (res (api_chat ?e sample_request idle))
      \<and> length (filter is_terminal_write (res (api_chat ?e sample_request idle))) = 1"
  proof (rule turn_well_terminated)
    show "res idle = []"
      by (rule fresh)
  next
    fix c chunks
    assume "axios_post ?e c = Inr chunks"
    then show "ollama_done_last (JSON_parse ?e) chunks"
      using sample_stream_done_last by (auto simp: sample_env_parse)
  next
    fix chunks
    assume "switch_provider (getProviderFromModel (model sample_request)) = CaseOpenAI"
    then show "openai_done_last chunks"
      using routed by simp
  qed
  have frames: "res (api_chat ?e sample_request idle) =
      [Write (Content (JStr (ascii ''Hi''))), Write Done, End]"
    unfolding sample_turn_ollama using sample_stream_emitted by simp
  show ?thesis
    using shape frames by blast
qed

text \<open>
  Claim C1 as stated fails: when the stream of the local backend ends after a content
  line, without a done marker (a connection that drops, say), the response of the turn has
  its content frame and no terminal frame at all.
\<close>

theorem turn_without_done_counterexample:
  \<open>res (api_chat (sample_env\<lparr>axios_post := (\<lambda>c. Inr [ascii ''{"response":"Hi"}\<newline>''])\<rparr>)
          sample_request idle) =
     [Write (Content (JStr (ascii ''Hi'')))]
   \<and> filter is_terminal_write
       (res (api_chat (sample_env\<lparr>axios_post := (\<lambda>c. Inr [ascii ''{"response":"Hi"}\<newline>''])\<rparr>)
          sample_request idle)) = []
   \<and> \<not> well_terminated
       (res (api_chat (sample_env\<lparr>axios_post := (\<lambda>c. Inr [ascii ''{"response":"Hi"}\<newline>''])\<rparr>)
          sample_request idle))\<close>
proof -
  have \<open>fold (ollama_data sample_parse) [ascii ''{"response":"Hi"}\<newline>''] [] =
      [Write (Content (JStr (ascii ''Hi'')))]\<close>
    using ollama_line_hi [of "[]"]
    by (simp add: ollama_data_def lines_whole_chunk del: ollama_lines.simps)
  then show ?thesis
    by (simp add: sample_turn_ollama well_terminated_def)
qed

end
